theory Spec2Isabelle
  imports Main
begin

section \<open>The world outside the program\<close>

text \<open>
  The program (\<^verbatim>\<open>n2.c\<close>, "CURHELL2.C") is one \<^verbatim>\<open>main\<close> that talks to the curses
  library and to libc. Neither library is part of the repository, so the model
  records which calls the program makes, in which order and with which arguments,
  and takes what the calls answer from a description of the world the process
  runs in.
\<close>

text \<open>\<^verbatim>\<open>WINDOW *\<close>: \<^verbatim>\<open>initscr()\<close> answers a pointer to the standard screen, or \<^verbatim>\<open>NULL\<close>
  (modelled as \<open>None\<close>).\<close>

datatype window = stdscr

text \<open>The eight colour names of \<^verbatim>\<open><curses.h>\<close> that the program passes to \<^verbatim>\<open>init_pair\<close>.\<close>

datatype color =
    COLOR_BLACK | COLOR_RED | COLOR_GREEN | COLOR_YELLOW
  | COLOR_BLUE | COLOR_MAGENTA | COLOR_CYAN | COLOR_WHITE

text \<open>\<^verbatim>\<open><stdlib.h>\<close>: POSIX fixes \<^verbatim>\<open>EXIT_SUCCESS\<close> as 0 and \<^verbatim>\<open>EXIT_FAILURE\<close> as a
  non-zero value; 1 is the value of the common C libraries.\<close>

definition EXIT_SUCCESS :: int where
  "EXIT_SUCCESS = 0"

definition EXIT_FAILURE :: int where
  "EXIT_FAILURE = 1"

text \<open>
  Everything a run can depend on: the argument vector and the environment the
  process is started with, and the three answers of the terminal library that the
  program looks at (the result of \<^verbatim>\<open>initscr()\<close>, the result of \<^verbatim>\<open>has_colors()\<close>
  and the value of the global \<^verbatim>\<open>COLOR_PAIRS\<close> after \<^verbatim>\<open>start_color()\<close>).
\<close>

record world =
  argv :: "string list"
  environ :: "(string \<times> string) list"
  initscr_result :: "window option"
  has_colors_result :: bool
  COLOR_PAIRS :: int

text \<open>One library call of the program, with its arguments.\<close>

datatype call =
    Initscr
  | Fprintf_stderr string
  | Exit int
  | Start_color
  | Mvaddstr int int string
  | Has_colors
  | Init_pair int color color
  | Color_set int
  | Refresh
  | Sleep nat
  | Delwin window
  | Endwin

text \<open>What a finished run leaves behind: the calls it made, oldest first, and the
  exit status of the process.\<close>

record outcome =
  trace :: "call list"
  status :: int

section \<open>The library functions, as state transformers on the trace\<close>

definition initscr :: "world \<Rightarrow> call list \<Rightarrow> window option \<times> call list" where
  "initscr w tr = (initscr_result w, tr @ [Initscr])"

definition fprintf_stderr :: "string \<Rightarrow> call list \<Rightarrow> call list" where
  "fprintf_stderr txt tr = tr @ [Fprintf_stderr txt]"

definition start_color :: "call list \<Rightarrow> call list" where
  "start_color tr = tr @ [Start_color]"

definition mvaddstr :: "int \<Rightarrow> int \<Rightarrow> string \<Rightarrow> call list \<Rightarrow> call list" where
  "mvaddstr y x str tr = tr @ [Mvaddstr y x str]"

definition has_colors :: "world \<Rightarrow> call list \<Rightarrow> bool \<times> call list" where
  "has_colors w tr = (has_colors_result w, tr @ [Has_colors])"

definition init_pair :: "int \<Rightarrow> color \<Rightarrow> color \<Rightarrow> call list \<Rightarrow> call list" where
  "init_pair p f b tr = tr @ [Init_pair p f b]"

definition color_set :: "int \<Rightarrow> call list \<Rightarrow> call list" where
  "color_set p tr = tr @ [Color_set p]"

definition refresh :: "call list \<Rightarrow> call list" where
  "refresh tr = tr @ [Refresh]"

definition sleep :: "nat \<Rightarrow> call list \<Rightarrow> call list" where
  "sleep secs tr = tr @ [Sleep secs]"

definition delwin :: "window \<Rightarrow> call list \<Rightarrow> call list" where
  "delwin win tr = tr @ [Delwin win]"

definition endwin :: "call list \<Rightarrow> call list" where
  "endwin tr = tr @ [Endwin]"

section \<open>The program\<close>

text \<open>
  \<^verbatim>\<open>while ( n <= 13 ) { color_set(n, NULL); mvaddstr(6 + n, 32, " Hello, world! "); n++; }\<close>
\<close>

function hello_loop :: "int \<Rightarrow> call list \<Rightarrow> call list" where
  "hello_loop n tr =
     (if n \<le> 13
      then hello_loop (n + 1) (mvaddstr (6 + n) 32 '' Hello, world! '' (color_set n tr))
      else tr)"
  by pat_completeness auto
termination
  by (relation "measure (\<lambda>(n, tr). nat (14 - n))") auto

declare hello_loop.simps [simp del]

text \<open>
  \<^verbatim>\<open>int main(void)\<close>. The \<^verbatim>\<open>&&\<close> of the capability test evaluates \<^verbatim>\<open>has_colors()\<close>
  first, so that call is made on every run that gets this far, and \<^verbatim>\<open>COLOR_PAIRS\<close>
  is a global variable, read without a call. \<^verbatim>\<open>exit(EXIT_FAILURE)\<close> ends the
  run where it stands.
\<close>

definition main :: "world \<Rightarrow> outcome" where
  "main w =
     (case initscr w [] of
        (None, tr) \<Rightarrow>
          (let tr = fprintf_stderr (''Error initialising ncurses.'' @ [CHR 0x0A]) tr;
               tr = tr @ [Exit EXIT_FAILURE]
           in \<lparr>trace = tr, status = EXIT_FAILURE\<rparr>)
      | (Some mainwin, tr) \<Rightarrow>
          (let tr = start_color tr;
               tr = mvaddstr 6 32 '' Hello, world! '' tr;
               (colors, tr) = has_colors w tr;
               tr = (if colors \<and> COLOR_PAIRS w \<ge> 13
                     then
                       (let n = 1;
                            tr = init_pair 1 COLOR_RED COLOR_BLACK tr;
                            tr = init_pair 2 COLOR_GREEN COLOR_BLACK tr;
                            tr = init_pair 3 COLOR_YELLOW COLOR_BLACK tr;
                            tr = init_pair 4 COLOR_BLUE COLOR_BLACK tr;
                            tr = init_pair 5 COLOR_MAGENTA COLOR_BLACK tr;
                            tr = init_pair 6 COLOR_CYAN COLOR_BLACK tr;
                            tr = init_pair 7 COLOR_BLUE COLOR_WHITE tr;
                            tr = init_pair 8 COLOR_WHITE COLOR_RED tr;
                            tr = init_pair 9 COLOR_BLACK COLOR_GREEN tr;
                            tr = init_pair 10 COLOR_BLUE COLOR_YELLOW tr;
                            tr = init_pair 11 COLOR_WHITE COLOR_BLUE tr;
                            tr = init_pair 12 COLOR_WHITE COLOR_MAGENTA tr;
                            tr = init_pair 13 COLOR_BLACK COLOR_CYAN tr
                        in hello_loop n tr)
                     else tr);
               tr = refresh tr;
               tr = sleep 3 tr;
               tr = delwin mainwin tr;
               tr = endwin tr;
               tr = refresh tr
           in \<lparr>trace = tr, status = EXIT_SUCCESS\<rparr>))"

section \<open>Reading a trace\<close>

text \<open>
  What a sequence of calls means to the library, as far as the properties below
  need it. \<^verbatim>\<open>color_set(n, NULL)\<close> makes \<open>n\<close> the colour pair of the standard
  screen; \<^verbatim>\<open>mvaddstr(y, x, str)\<close> puts \<open>str\<close> at row \<open>y\<close>, column \<open>x\<close> in the pair
  selected at that moment (pair 0, the default, when none has been selected);
  \<^verbatim>\<open>init_pair(p, f, b)\<close> defines pair \<open>p\<close> as foreground \<open>f\<close> on background \<open>b\<close>;
  \<^verbatim>\<open>fprintf(stderr, txt)\<close> appends \<open>txt\<close> to the standard error stream.
\<close>

record draw =
  row :: int
  col :: int
  str :: string
  pair :: int

fun draws_from :: "int \<Rightarrow> call list \<Rightarrow> draw list" where
  "draws_from p [] = []"
| "draws_from p (Color_set n # cs) = draws_from n cs"
| "draws_from p (Mvaddstr y x s # cs) =
     \<lparr>row = y, col = x, str = s, pair = p\<rparr> # draws_from p cs"
| "draws_from p (c # cs) = draws_from p cs"

definition draws :: "call list \<Rightarrow> draw list" where
  "draws tr = draws_from 0 tr"

fun pairs_from :: "(int \<rightharpoonup> color \<times> color) \<Rightarrow> call list \<Rightarrow> (int \<rightharpoonup> color \<times> color)" where
  "pairs_from m [] = m"
| "pairs_from m (Init_pair p f b # cs) = pairs_from (m(p \<mapsto> (f, b))) cs"
| "pairs_from m (c # cs) = pairs_from m cs"

definition pair_table :: "call list \<Rightarrow> (int \<rightharpoonup> color \<times> color)" where
  "pair_table tr = pairs_from Map.empty tr"

fun stderr_of :: "call list \<Rightarrow> string" where
  "stderr_of [] = []"
| "stderr_of (Fprintf_stderr txt # cs) = txt @ stderr_of cs"
| "stderr_of (c # cs) = stderr_of cs"

text \<open>Kinds of call: one that draws, one that draws on a given row, one that
  defines or selects a colour pair, one that suspends the process, one that ends it.\<close>

definition is_draw :: "call \<Rightarrow> bool" where
  "is_draw c = (case c of Mvaddstr y x s \<Rightarrow> True | _ \<Rightarrow> False)"

definition on_row :: "int \<Rightarrow> call \<Rightarrow> bool" where
  "on_row r c = (case c of Mvaddstr y x s \<Rightarrow> y = r | _ \<Rightarrow> False)"

definition is_color_use :: "call \<Rightarrow> bool" where
  "is_color_use c =
     (case c of Init_pair p f b \<Rightarrow> True | Color_set p \<Rightarrow> True | _ \<Rightarrow> False)"

definition is_sleep :: "call \<Rightarrow> bool" where
  "is_sleep c = (case c of Sleep n \<Rightarrow> True | _ \<Rightarrow> False)"

definition is_exit :: "call \<Rightarrow> bool" where
  "is_exit c = (case c of Exit n \<Rightarrow> True | _ \<Rightarrow> False)"

section \<open>Sample worlds\<close>

definition color_terminal :: world where
  "color_terminal =
     \<lparr>argv = [''n2''], environ = [(''TERM'', ''xterm-256color'')],
      initscr_result = Some stdscr, has_colors_result = True, COLOR_PAIRS = 64\<rparr>"

definition few_pairs_terminal :: world where
  "few_pairs_terminal =
     \<lparr>argv = [''n2''], environ = [(''TERM'', ''xterm'')],
      initscr_result = Some stdscr, has_colors_result = True, COLOR_PAIRS = 8\<rparr>"

definition mono_terminal :: world where
  "mono_terminal =
     \<lparr>argv = [''n2''], environ = [(''TERM'', ''vt100'')],
      initscr_result = Some stdscr, has_colors_result = False, COLOR_PAIRS = 0\<rparr>"

definition no_terminal :: world where
  "no_terminal =
     \<lparr>argv = [''n2''], environ = [],
      initscr_result = None, has_colors_result = False, COLOR_PAIRS = 0\<rparr>"

text \<open>The colour terminal again, the process started with other arguments and
  another environment.\<close>

definition color_terminal_other_start :: world where
  "color_terminal_other_start =
     color_terminal\<lparr>argv := [''n2'', ''--mono'', ''x''],
                    environ := [(''TERM'', ''dumb''), (''NO_COLOR'', ''1'')]\<rparr>"

section \<open>The three runs of the program\<close>

text \<open>The loop started at \<open>n\<close> appends, for every \<open>k\<close> from \<open>n\<close> to 13 in turn, the
  selection of pair \<open>k\<close> and the draw on row \<open>6 + k\<close>; it always terminates.\<close>

lemma hello_loop_calls:
  "hello_loop n tr =
     tr @ concat (map (\<lambda>k. [Color_set k, Mvaddstr (6 + k) 32 '' Hello, world! '']) [n..13])"
proof (induction n tr rule: hello_loop.induct)
  case (1 n tr)
  show ?case
  proof (cases "n \<le> 13")
    case True
    then have "[n..13] = n # [n + 1..13]"
      by (simp add: upto_rec1)
    with True 1 show ?thesis
      by (subst hello_loop.simps) (simp add: color_set_def mvaddstr_def)
  next
    case False
    then show ?thesis
      by (subst hello_loop.simps) simp
  qed
qed

lemma hello_loop_from_1:
  "hello_loop 1 tr = tr @
     [Color_set 1, Mvaddstr 7 32 '' Hello, world! '',
      Color_set 2, Mvaddstr 8 32 '' Hello, world! '',
      Color_set 3, Mvaddstr 9 32 '' Hello, world! '',
      Color_set 4, Mvaddstr 10 32 '' Hello, world! '',
      Color_set 5, Mvaddstr 11 32 '' Hello, world! '',
      Color_set 6, Mvaddstr 12 32 '' Hello, world! '',
      Color_set 7, Mvaddstr 13 32 '' Hello, world! '',
      Color_set 8, Mvaddstr 14 32 '' Hello, world! '',
      Color_set 9, Mvaddstr 15 32 '' Hello, world! '',
      Color_set 10, Mvaddstr 16 32 '' Hello, world! '',
      Color_set 11, Mvaddstr 17 32 '' Hello, world! '',
      Color_set 12, Mvaddstr 18 32 '' Hello, world! '',
      Color_set 13, Mvaddstr 19 32 '' Hello, world! '']"
proof -
  have "[1..13] = [1, 2, 3, 4, 5, 6, 7, 8, 9, 10, 11, 12, 13 :: int]"
    by (simp add: upto_rec1)
  then show ?thesis
    by (simp add: hello_loop_calls)
qed

lemma main_failed:
  assumes "initscr_result w = None"
  shows "main w =
    \<lparr>trace = [Initscr, Fprintf_stderr (''Error initialising ncurses.'' @ [CHR 0x0A]),
              Exit EXIT_FAILURE],
     status = EXIT_FAILURE\<rparr>"
  using assms by (simp add: main_def initscr_def fprintf_stderr_def Let_def)

lemma main_plain:
  assumes "initscr_result w = Some h" and "\<not> (has_colors_result w \<and> 13 \<le> COLOR_PAIRS w)"
  shows "main w =
    \<lparr>trace = [Initscr, Start_color, Mvaddstr 6 32 '' Hello, world! '', Has_colors,
              Refresh, Sleep 3, Delwin h, Endwin, Refresh],
     status = EXIT_SUCCESS\<rparr>"
  using assms
  by (auto simp add: main_def initscr_def start_color_def mvaddstr_def has_colors_def
      refresh_def sleep_def delwin_def endwin_def Let_def)

lemma main_colored:
  assumes "initscr_result w = Some h" and "has_colors_result w" and "13 \<le> COLOR_PAIRS w"
  shows "main w =
    \<lparr>trace = [Initscr, Start_color, Mvaddstr 6 32 '' Hello, world! '', Has_colors,
              Init_pair 1 COLOR_RED COLOR_BLACK,
              Init_pair 2 COLOR_GREEN COLOR_BLACK,
              Init_pair 3 COLOR_YELLOW COLOR_BLACK,
              Init_pair 4 COLOR_BLUE COLOR_BLACK,
              Init_pair 5 COLOR_MAGENTA COLOR_BLACK,
              Init_pair 6 COLOR_CYAN COLOR_BLACK,
              Init_pair 7 COLOR_BLUE COLOR_WHITE,
              Init_pair 8 COLOR_WHITE COLOR_RED,
              Init_pair 9 COLOR_BLACK COLOR_GREEN,
              Init_pair 10 COLOR_BLUE COLOR_YELLOW,
              Init_pair 11 COLOR_WHITE COLOR_BLUE,
              Init_pair 12 COLOR_WHITE COLOR_MAGENTA,
              Init_pair 13 COLOR_BLACK COLOR_CYAN,
              Color_set 1, Mvaddstr 7 32 '' Hello, world! '',
              Color_set 2, Mvaddstr 8 32 '' Hello, world! '',
              Color_set 3, Mvaddstr 9 32 '' Hello, world! '',
              Color_set 4, Mvaddstr 10 32 '' Hello, world! '',
              Color_set 5, Mvaddstr 11 32 '' Hello, world! '',
              Color_set 6, Mvaddstr 12 32 '' Hello, world! '',
              Color_set 7, Mvaddstr 13 32 '' Hello, world! '',
              Color_set 8, Mvaddstr 14 32 '' Hello, world! '',
              Color_set 9, Mvaddstr 15 32 '' Hello, world! '',
              Color_set 10, Mvaddstr 16 32 '' Hello, world! '',
              Color_set 11, Mvaddstr 17 32 '' Hello, world! '',
              Color_set 12, Mvaddstr 18 32 '' Hello, world! '',
              Color_set 13, Mvaddstr 19 32 '' Hello, world! '',
              Refresh, Sleep 3, Delwin h, Endwin, Refresh],
     status = EXIT_SUCCESS\<rparr>"
  using assms
  by (simp add: main_def initscr_def start_color_def mvaddstr_def has_colors_def
      init_pair_def hello_loop_from_1 refresh_def sleep_def delwin_def endwin_def Let_def)

section \<open>The base message\<close>

text \<open>
  Claim C1. Whenever \<^verbatim>\<open>initscr()\<close> answers a window, the run writes the string
  \<open>'' Hello, world! ''\<close> (15 characters, one space in front and one behind) at
  row 6, column 32, whether or not the terminal has colours and however many
  pairs it has; that call is the only one that draws on row 6.
\<close>

theorem base_message_at_6_32:
  assumes "initscr_result w = Some h"
  shows "Mvaddstr 6 32 '' Hello, world! '' \<in> set (trace (main w)) \<and>
         length '' Hello, world! '' = 15 \<and>
         hd '' Hello, world! '' = CHR '' '' \<and> last '' Hello, world! '' = CHR '' '' \<and>
         filter (on_row 6) (trace (main w)) = [Mvaddstr 6 32 '' Hello, world! '']"
proof (cases "has_colors_result w \<and> 13 \<le> COLOR_PAIRS w")
  case True
  then have "has_colors_result w" and "13 \<le> COLOR_PAIRS w"
    by simp_all
  from main_colored [OF assms this] show ?thesis
    by (simp add: on_row_def)
next
  case False
  from main_plain [OF assms this] show ?thesis
    by (simp add: on_row_def)
qed

theorem base_message_at_6_32_witness:
  "initscr_result mono_terminal = Some stdscr \<and>
   Mvaddstr 6 32 '' Hello, world! '' \<in> set (trace (main mono_terminal)) \<and>
   filter (on_row 6) (trace (main mono_terminal)) = [Mvaddstr 6 32 '' Hello, world! '']"
  using base_message_at_6_32 [of mono_terminal stdscr]
  by (simp add: mono_terminal_def)

section \<open>The colour branch\<close>

text \<open>
  Claim C2. When \<^verbatim>\<open>initscr()\<close> answers a window, \<^verbatim>\<open>has_colors()\<close> answers true and
  \<^verbatim>\<open>COLOR_PAIRS\<close> is at least 13, the draws on rows 7 to 19 are exactly thirteen,
  one per row in increasing order, each of \<open>'' Hello, world! ''\<close> at column 32, the
  one on row \<open>6 + n\<close> in colour pair \<open>n\<close>; and the pairs 1 to 13 are defined as
  (red, black), (green, black), (yellow, black), (blue, black), (magenta, black),
  (cyan, black), (blue, white), (white, red), (black, green), (blue, yellow),
  (white, blue), (white, magenta), (black, cyan), in this order of index.
\<close>

theorem colored_rows_7_to_19:
  assumes "initscr_result w = Some h" and "has_colors_result w" and "13 \<le> COLOR_PAIRS w"
  shows "filter (\<lambda>d. 7 \<le> row d \<and> row d \<le> 19) (draws (trace (main w))) =
           map (\<lambda>n. \<lparr>row = 6 + n, col = 32, str = '' Hello, world! '', pair = n\<rparr>) [1..13] \<and>
         map (pair_table (trace (main w))) [1..13] =
           [Some (COLOR_RED, COLOR_BLACK), Some (COLOR_GREEN, COLOR_BLACK),
            Some (COLOR_YELLOW, COLOR_BLACK), Some (COLOR_BLUE, COLOR_BLACK),
            Some (COLOR_MAGENTA, COLOR_BLACK), Some (COLOR_CYAN, COLOR_BLACK),
            Some (COLOR_BLUE, COLOR_WHITE), Some (COLOR_WHITE, COLOR_RED),
            Some (COLOR_BLACK, COLOR_GREEN), Some (COLOR_BLUE, COLOR_YELLOW),
            Some (COLOR_WHITE, COLOR_BLUE), Some (COLOR_WHITE, COLOR_MAGENTA),
            Some (COLOR_BLACK, COLOR_CYAN)]"
proof -
  have rows: "[1..13] = [1, 2, 3, 4, 5, 6, 7, 8, 9, 10, 11, 12, 13 :: int]"
    by (simp add: upto_rec1)
  note run = main_colored [OF assms]
  have "filter (\<lambda>d. 7 \<le> row d \<and> row d \<le> 19) (draws (trace (main w))) =
          map (\<lambda>n. \<lparr>row = 6 + n, col = 32, str = '' Hello, world! '', pair = n\<rparr>) [1..13]"
    unfolding run rows by (simp add: draws_def)
  moreover have "map (pair_table (trace (main w))) [1..13] =
           [Some (COLOR_RED, COLOR_BLACK), Some (COLOR_GREEN, COLOR_BLACK),
            Some (COLOR_YELLOW, COLOR_BLACK), Some (COLOR_BLUE, COLOR_BLACK),
            Some (COLOR_MAGENTA, COLOR_BLACK), Some (COLOR_CYAN, COLOR_BLACK),
            Some (COLOR_BLUE, COLOR_WHITE), Some (COLOR_WHITE, COLOR_RED),
            Some (COLOR_BLACK, COLOR_GREEN), Some (COLOR_BLUE, COLOR_YELLOW),
            Some (COLOR_WHITE, COLOR_BLUE), Some (COLOR_WHITE, COLOR_MAGENTA),
            Some (COLOR_BLACK, COLOR_CYAN)]"
    unfolding run rows by (simp add: pair_table_def)
  ultimately show ?thesis
    by (rule conjI)
qed

theorem colored_rows_7_to_19_witness:
  "initscr_result color_terminal = Some stdscr \<and> has_colors_result color_terminal \<and>
   13 \<le> COLOR_PAIRS color_terminal \<and>
   filter (\<lambda>d. 7 \<le> row d \<and> row d \<le> 19) (draws (trace (main color_terminal))) =
     map (\<lambda>n. \<lparr>row = 6 + n, col = 32, str = '' Hello, world! '', pair = n\<rparr>) [1..13] \<and>
   pair_table (trace (main color_terminal)) 7 = Some (COLOR_BLUE, COLOR_WHITE)"
proof -
  have "initscr_result color_terminal = Some stdscr" and "has_colors_result color_terminal"
    and "13 \<le> COLOR_PAIRS color_terminal"
    by (simp_all add: color_terminal_def)
  from this colored_rows_7_to_19 [OF this] show ?thesis
    by (simp add: upto_rec1)
qed

text \<open>
  Claim C3. When \<^verbatim>\<open>initscr()\<close> answers a window but \<^verbatim>\<open>has_colors()\<close> answers false
  or \<^verbatim>\<open>COLOR_PAIRS\<close> is below 13, the run draws nothing but the message at row 6
  (so nothing on rows 7 to 19), defines and selects no colour pair, writes nothing
  to the standard error stream, does not call \<^verbatim>\<open>exit\<close> and ends with status 0.
\<close>

theorem no_colors_only_row_6:
  assumes "initscr_result w = Some h" and "\<not> has_colors_result w \<or> COLOR_PAIRS w < 13"
  shows "draws (trace (main w)) =
           [\<lparr>row = 6, col = 32, str = '' Hello, world! '', pair = 0\<rparr>] \<and>
         filter (\<lambda>d. 7 \<le> row d \<and> row d \<le> 19) (draws (trace (main w))) = [] \<and>
         pair_table (trace (main w)) = Map.empty \<and>
         filter is_color_use (trace (main w)) = [] \<and>
         stderr_of (trace (main w)) = [] \<and>
         filter is_exit (trace (main w)) = [] \<and>
         status (main w) = 0"
proof -
  from assms(2) have "\<not> (has_colors_result w \<and> 13 \<le> COLOR_PAIRS w)"
    by auto
  from main_plain [OF assms(1) this] show ?thesis
    by (simp add: draws_def pair_table_def is_color_use_def is_exit_def EXIT_SUCCESS_def)
qed

theorem no_colors_only_row_6_witness:
  "initscr_result few_pairs_terminal = Some stdscr \<and>
   has_colors_result few_pairs_terminal \<and> COLOR_PAIRS few_pairs_terminal < 13 \<and>
   draws (trace (main few_pairs_terminal)) =
     [\<lparr>row = 6, col = 32, str = '' Hello, world! '', pair = 0\<rparr>] \<and>
   pair_table (trace (main few_pairs_terminal)) = Map.empty \<and>
   status (main few_pairs_terminal) = 0"
  using no_colors_only_row_6 [of few_pairs_terminal stdscr]
  by (simp add: few_pairs_terminal_def)

section \<open>The failure path\<close>

text \<open>
  Claim C4. When \<^verbatim>\<open>initscr()\<close> answers \<^verbatim>\<open>NULL\<close>, the run consists of three calls:
  the one \<^verbatim>\<open>initscr()\<close>, one \<^verbatim>\<open>fprintf\<close> of the line \<open>Error initialising ncurses.\<close>
  to the standard error stream, and \<^verbatim>\<open>exit(EXIT_FAILURE)\<close>. So nothing is drawn,
  no colour pair is touched, the error stream holds exactly that one line,
  \<^verbatim>\<open>initscr()\<close> is not tried again, and the exit status is not 0.
\<close>

theorem init_failure_path:
  assumes "initscr_result w = None"
  shows "trace (main w) =
           [Initscr, Fprintf_stderr (''Error initialising ncurses.'' @ [CHR 0x0A]),
            Exit EXIT_FAILURE] \<and>
         filter is_draw (trace (main w)) = [] \<and>
         draws (trace (main w)) = [] \<and>
         filter is_color_use (trace (main w)) = [] \<and>
         stderr_of (trace (main w)) = ''Error initialising ncurses.'' @ [CHR 0x0A] \<and>
         count_list (stderr_of (trace (main w))) (CHR 0x0A) = 1 \<and>
         count_list (trace (main w)) Initscr = 1 \<and>
         status (main w) \<noteq> 0"
  using main_failed [OF assms]
  by (simp add: is_draw_def draws_def is_color_use_def EXIT_FAILURE_def)

theorem init_failure_path_witness:
  "initscr_result no_terminal = None \<and>
   trace (main no_terminal) =
     [Initscr, Fprintf_stderr (''Error initialising ncurses.'' @ [CHR 0x0A]), Exit 1] \<and>
   status (main no_terminal) \<noteq> 0"
  using init_failure_path [of no_terminal]
  by (simp add: no_terminal_def EXIT_FAILURE_def)

section \<open>Presenting and tearing down\<close>

text \<open>
  Claim C5. Whenever \<^verbatim>\<open>initscr()\<close> answers a window, the run ends with
  \<^verbatim>\<open>refresh()\<close>, \<^verbatim>\<open>sleep(3)\<close>, \<^verbatim>\<open>delwin\<close>, \<^verbatim>\<open>endwin()\<close>, \<^verbatim>\<open>refresh()\<close>, in this order:
  every draw of the run comes before the first of these calls, no flush, pause or
  teardown call comes earlier, and \<^verbatim>\<open>sleep(3)\<close> is the only pause. So the screen is
  flushed after the last draw, then the process sleeps 3 seconds, then teardown
  begins.
\<close>

theorem flush_then_sleep_3:
  assumes "initscr_result w = Some h"
  shows "\<exists>pre. trace (main w) = pre @ [Refresh, Sleep 3, Delwin h, Endwin, Refresh] \<and>
           draws pre = draws (trace (main w)) \<and>
           filter is_draw pre = filter is_draw (trace (main w)) \<and>
           Refresh \<notin> set pre \<and> Delwin h \<notin> set pre \<and> Endwin \<notin> set pre \<and>
           filter is_sleep (trace (main w)) = [Sleep 3]"
proof -
  define tr where "tr = trace (main w)"
  define pre where "pre = take (length tr - 5) tr"
  have "tr = pre @ [Refresh, Sleep 3, Delwin h, Endwin, Refresh] \<and>
        draws pre = draws tr \<and> filter is_draw pre = filter is_draw tr \<and>
        Refresh \<notin> set pre \<and> Delwin h \<notin> set pre \<and> Endwin \<notin> set pre \<and>
        filter is_sleep tr = [Sleep 3]"
  proof (cases "has_colors_result w \<and> 13 \<le> COLOR_PAIRS w")
    case True
    then have "has_colors_result w" and "13 \<le> COLOR_PAIRS w"
      by simp_all
    from main_colored [OF assms this] show ?thesis
      unfolding pre_def tr_def by (simp add: draws_def is_draw_def is_sleep_def)
  next
    case False
    from main_plain [OF assms this] show ?thesis
      unfolding pre_def tr_def by (simp add: draws_def is_draw_def is_sleep_def)
  qed
  then show ?thesis
    unfolding tr_def by (rule exI [of _ pre])
qed

theorem flush_then_sleep_3_witness:
  "initscr_result color_terminal = Some stdscr \<and>
   (\<exists>pre. trace (main color_terminal) = pre @ [Refresh, Sleep 3, Delwin stdscr, Endwin, Refresh] \<and>
      draws pre = draws (trace (main color_terminal)) \<and>
      Refresh \<notin> set pre \<and>
      filter is_sleep (trace (main color_terminal)) = [Sleep 3])"
proof -
  have start: "initscr_result color_terminal = Some stdscr"
    by (simp add: color_terminal_def)
  from flush_then_sleep_3 [OF start] start show ?thesis
    by blast
qed

text \<open>
  Claim C6. Whenever \<^verbatim>\<open>initscr()\<close> answers a window, the run is the one
  \<^verbatim>\<open>initscr()\<close>, then calls among which there is no \<^verbatim>\<open>exit\<close>, no \<^verbatim>\<open>endwin()\<close> and no
  second \<^verbatim>\<open>initscr()\<close>, then the teardown \<^verbatim>\<open>delwin(mainwin)\<close>, \<^verbatim>\<open>endwin()\<close>,
  \<^verbatim>\<open>refresh()\<close> on the window that \<^verbatim>\<open>initscr()\<close> answered, and only then the return
  from \<^verbatim>\<open>main\<close> with \<^verbatim>\<open>EXIT_SUCCESS\<close>. One start is matched by one stop, and no
  path leaves the process between the two.
\<close>

theorem start_matched_by_stop:
  assumes "initscr_result w = Some h"
  shows "\<exists>mid. trace (main w) = Initscr # mid @ [Delwin h, Endwin, Refresh] \<and>
           filter is_exit mid = [] \<and> Endwin \<notin> set mid \<and> Initscr \<notin> set mid \<and>
           count_list (trace (main w)) Initscr = 1 \<and>
           count_list (trace (main w)) Endwin = 1 \<and>
           filter is_exit (trace (main w)) = [] \<and>
           status (main w) = EXIT_SUCCESS"
proof -
  define tr where "tr = trace (main w)"
  define mid where "mid = butlast (butlast (butlast (tl tr)))"
  consider (colored) "has_colors_result w" and "13 \<le> COLOR_PAIRS w"
    | (plain) "\<not> (has_colors_result w \<and> 13 \<le> COLOR_PAIRS w)"
    by blast
  then have "tr = Initscr # mid @ [Delwin h, Endwin, Refresh] \<and>
           filter is_exit mid = [] \<and> Endwin \<notin> set mid \<and> Initscr \<notin> set mid \<and>
           count_list tr Initscr = 1 \<and> count_list tr Endwin = 1 \<and>
           filter is_exit tr = [] \<and> status (main w) = EXIT_SUCCESS"
  proof cases
    case colored
    from main_colored [OF assms colored] show ?thesis
      unfolding mid_def tr_def by (simp add: is_exit_def)
  next
    case plain
    from main_plain [OF assms plain] show ?thesis
      unfolding mid_def tr_def by (simp add: is_exit_def)
  qed
  then show ?thesis
    unfolding tr_def by (rule exI [of _ mid])
qed

theorem start_matched_by_stop_witness:
  "initscr_result mono_terminal = Some stdscr \<and>
   (\<exists>mid. trace (main mono_terminal) = Initscr # mid @ [Delwin stdscr, Endwin, Refresh] \<and>
      Endwin \<notin> set mid \<and> filter is_exit (trace (main mono_terminal)) = []) \<and>
   status (main mono_terminal) = EXIT_SUCCESS"
proof -
  have start: "initscr_result mono_terminal = Some stdscr"
    by (simp add: mono_terminal_def)
  from start_matched_by_stop [OF start] start show ?thesis
    by blast
qed

section \<open>Exit status\<close>

text \<open>
  Claim C7. The exit status of a run is 0 exactly when \<^verbatim>\<open>initscr()\<close> answered a
  window, which are the runs that reach the \<^verbatim>\<open>return\<close> at the end of \<^verbatim>\<open>main\<close> without
  calling \<^verbatim>\<open>exit\<close>; it is different from 0 exactly when \<^verbatim>\<open>initscr()\<close> answered
  \<^verbatim>\<open>NULL\<close>.
\<close>

theorem status_0_iff_initialised:
  "(status (main w) = 0) = (initscr_result w \<noteq> None) \<and>
   (status (main w) \<noteq> 0) = (initscr_result w = None) \<and>
   (status (main w) = 0) = (filter is_exit (trace (main w)) = [])"
proof (cases "initscr_result w")
  case None
  from main_failed [OF this] None show ?thesis
    by (simp add: EXIT_FAILURE_def is_exit_def)
next
  case (Some h)
  show ?thesis
  proof (cases "has_colors_result w \<and> 13 \<le> COLOR_PAIRS w")
    case True
    then have "has_colors_result w" and "13 \<le> COLOR_PAIRS w"
      by simp_all
    from main_colored [OF Some this] Some show ?thesis
      by (simp add: EXIT_SUCCESS_def is_exit_def)
  next
    case False
    from main_plain [OF Some this] Some show ?thesis
      by (simp add: EXIT_SUCCESS_def is_exit_def)
  qed
qed

theorem status_0_iff_initialised_witness:
  "status (main color_terminal) = 0 \<and> initscr_result color_terminal \<noteq> None \<and>
   status (main no_terminal) \<noteq> 0 \<and> initscr_result no_terminal = None"
  using status_0_iff_initialised [of color_terminal] status_0_iff_initialised [of no_terminal]
  by (simp add: color_terminal_def no_terminal_def)

section \<open>Arguments and environment\<close>

text \<open>
  Claim C8. \<^verbatim>\<open>main\<close> takes no arguments and reads no environment variable: two runs
  for which \<^verbatim>\<open>initscr()\<close>, \<^verbatim>\<open>has_colors()\<close> and \<^verbatim>\<open>COLOR_PAIRS\<close> answer the same make the
  same calls and end with the same status, whatever the argument vectors and the
  environments are; so what is drawn and what is written to the standard error
  stream agree too.
\<close>

theorem args_and_environ_ignored:
  assumes "initscr_result w = initscr_result w'"
    and "has_colors_result w = has_colors_result w'"
    and "COLOR_PAIRS w = COLOR_PAIRS w'"
  shows "main w = main w' \<and>
         draws (trace (main w)) = draws (trace (main w')) \<and>
         pair_table (trace (main w)) = pair_table (trace (main w')) \<and>
         stderr_of (trace (main w)) = stderr_of (trace (main w')) \<and>
         status (main w) = status (main w')"
proof -
  have "main w = main w'"
    unfolding main_def initscr_def has_colors_def assms by (rule refl)
  then show ?thesis
    by simp
qed

theorem args_and_environ_ignored_witness:
  "argv color_terminal \<noteq> argv color_terminal_other_start \<and>
   environ color_terminal \<noteq> environ color_terminal_other_start \<and>
   initscr_result color_terminal = initscr_result color_terminal_other_start \<and>
   has_colors_result color_terminal = has_colors_result color_terminal_other_start \<and>
   COLOR_PAIRS color_terminal = COLOR_PAIRS color_terminal_other_start \<and>
   main color_terminal = main color_terminal_other_start"
  using args_and_environ_ignored [of color_terminal color_terminal_other_start]
  by (simp add: color_terminal_other_start_def color_terminal_def)

section \<open>Order of the colour calls\<close>

text \<open>
  Claim C9. Whenever \<^verbatim>\<open>initscr()\<close> answers a window, the next call is
  \<^verbatim>\<open>start_color()\<close> and the one after it is the draw of the base message, whatever
  \<^verbatim>\<open>has_colors()\<close> and \<^verbatim>\<open>COLOR_PAIRS\<close> answer, and \<^verbatim>\<open>start_color()\<close> is called once.
  The calls that depend on the capability test are the others: the run defines or
  selects a colour pair, or draws on a row other than 6, exactly when
  \<^verbatim>\<open>has_colors()\<close> answers true and \<^verbatim>\<open>COLOR_PAIRS\<close> is at least 13.
\<close>

theorem start_color_not_gated:
  assumes "initscr_result w = Some h"
  shows "take 3 (trace (main w)) = [Initscr, Start_color, Mvaddstr 6 32 '' Hello, world! ''] \<and>
         count_list (trace (main w)) Start_color = 1 \<and>
         (filter is_color_use (trace (main w)) \<noteq> []) =
           (has_colors_result w \<and> 13 \<le> COLOR_PAIRS w) \<and>
         (filter (\<lambda>c. is_draw c \<and> \<not> on_row 6 c) (trace (main w)) \<noteq> []) =
           (has_colors_result w \<and> 13 \<le> COLOR_PAIRS w)"
proof (cases "has_colors_result w \<and> 13 \<le> COLOR_PAIRS w")
  case True
  then have "has_colors_result w" and "13 \<le> COLOR_PAIRS w"
    by simp_all
  from main_colored [OF assms this] True show ?thesis
    by (simp add: is_color_use_def is_draw_def on_row_def)
next
  case False
  from main_plain [OF assms this] False show ?thesis
    by (simp add: is_color_use_def is_draw_def on_row_def)
qed

theorem start_color_not_gated_witness:
  "initscr_result mono_terminal = Some stdscr \<and> \<not> has_colors_result mono_terminal \<and>
   take 3 (trace (main mono_terminal)) =
     [Initscr, Start_color, Mvaddstr 6 32 '' Hello, world! ''] \<and>
   filter is_color_use (trace (main mono_terminal)) = []"
  using start_color_not_gated [of mono_terminal stdscr]
  by (simp add: mono_terminal_def)

text \<open>
  Claim C10. Whenever \<^verbatim>\<open>initscr()\<close> answers a window, no \<^verbatim>\<open>init_pair\<close> and no
  \<^verbatim>\<open>color_set\<close> call comes before the draw of the base message, so that message is
  drawn in pair 0, the default of the window, and every draw on row 6 is in pair 0:
  none is in one of the pairs 1 to 13. This holds in the coloured run and in the
  plain one.
\<close>

theorem base_message_in_default_pair:
  assumes "initscr_result w = Some h"
  shows "(\<exists>pre post. trace (main w) = pre @ Mvaddstr 6 32 '' Hello, world! '' # post \<and>
            filter is_color_use pre = [] \<and> filter is_draw pre = []) \<and>
         (\<exists>rest. draws (trace (main w)) =
            \<lparr>row = 6, col = 32, str = '' Hello, world! '', pair = 0\<rparr> # rest \<and>
            (\<forall>d \<in> set rest. row d \<noteq> 6)) \<and>
         (\<forall>d \<in> set (draws (trace (main w))). row d = 6 \<longrightarrow> pair d = 0) \<and>
         (\<forall>d \<in> set (draws (trace (main w))). row d = 6 \<longrightarrow> pair d \<notin> {1..13})"
proof -
  obtain post where shape:
    "trace (main w) = [Initscr, Start_color] @ Mvaddstr 6 32 '' Hello, world! '' # post"
    and later: "\<forall>d \<in> set (draws_from 0 post). row d \<noteq> 6"
  proof (cases "has_colors_result w \<and> 13 \<le> COLOR_PAIRS w")
    case True
    then have "has_colors_result w" and "13 \<le> COLOR_PAIRS w"
      by simp_all
    from main_colored [OF assms this] that show ?thesis
      by simp
  next
    case False
    from main_plain [OF assms this] that show ?thesis
      by simp
  qed
  have "filter is_color_use [Initscr, Start_color] = [] \<and>
        filter is_draw [Initscr, Start_color] = []"
    by (simp add: is_color_use_def is_draw_def)
  with shape have first: "\<exists>pre post. trace (main w) = pre @ Mvaddstr 6 32 '' Hello, world! '' # post \<and>
      filter is_color_use pre = [] \<and> filter is_draw pre = []"
    by blast
  have ds: "draws (trace (main w)) =
      \<lparr>row = 6, col = 32, str = '' Hello, world! '', pair = 0\<rparr> # draws_from 0 post"
    unfolding shape by (simp add: draws_def)
  from later have zero: "\<forall>d \<in> set (draws (trace (main w))). row d = 6 \<longrightarrow> pair d = 0"
    unfolding ds by simp
  from ds later have "\<exists>rest. draws (trace (main w)) =
      \<lparr>row = 6, col = 32, str = '' Hello, world! '', pair = 0\<rparr> # rest \<and>
      (\<forall>d \<in> set rest. row d \<noteq> 6)"
    by blast
  with first zero show ?thesis
    by simp
qed

theorem base_message_in_default_pair_witness:
  "initscr_result color_terminal = Some stdscr \<and>
   filter (\<lambda>d. row d = 6) (draws (trace (main color_terminal))) =
     [\<lparr>row = 6, col = 32, str = '' Hello, world! '', pair = 0\<rparr>]"
proof -
  have start: "initscr_result color_terminal = Some stdscr"
    by (simp add: color_terminal_def)
  from base_message_in_default_pair [OF start] obtain rest where
    "draws (trace (main color_terminal)) =
       \<lparr>row = 6, col = 32, str = '' Hello, world! '', pair = 0\<rparr> # rest"
    and "\<forall>d \<in> set rest. row d \<noteq> 6"
    by blast
  then have "filter (\<lambda>d. row d = 6) (draws (trace (main color_terminal))) =
     [\<lparr>row = 6, col = 32, str = '' Hello, world! '', pair = 0\<rparr>]"
    by (simp add: filter_empty_conv)
  with start show ?thesis
    by simp
qed

end
